theory Spec2Isabelle
  imports Complex_Main "HOL-Library.Multiset"
begin

section \<open>Numbers and constants\<close>

text \<open>
  The TypeScript sources compute with JavaScript numbers.  Amounts in SOL, durations in
  hours and rewards are modelled as exact rationals; lamport balances, which the sources
  obtain from the ledger as integers, are natural numbers.  \<open>NaN\<close> only arises from
  \<open>parseFloat\<close> on user input and is modelled as \<open>None\<close> there.
\<close>

type_synonym number = rat

definition LAMPORTS_PER_SOL :: nat where
  "LAMPORTS_PER_SOL = 1000000000"

text \<open>\<open>Math.floor(x * LAMPORTS_PER_SOL)\<close>, as an integer.\<close>

definition floor_lamports :: "number \<Rightarrow> int" where
  "floor_lamports x = \<lfloor>x * of_nat LAMPORTS_PER_SOL\<rfloor>"

section \<open>The resilience wrapper \<open>retryRPC\<close>\<close>

text \<open>
  \<^verbatim>\<open>
  async function retryRPC<T>(fn, retries = 3, delay = 1000) {
    try { return await fn(); } catch (error) {
      if (retries > 0 && JSON.stringify(error).includes("429")) {
        await sleep(delay); return retryRPC(fn, retries - 1, delay * 2);
      } throw error;
    }
  }
  \<close>
  The older copy of the component logs
  \<open>RPC Limit hit (429), retrying in ${delay}ms...\<close> before the sleep.

  A thrown value is told apart only by \<open>JSON.stringify\<close>.  That function serialises the
  enumerable own properties of an object; the \<open>message\<close> and \<open>stack\<close> of an \<open>Error\<close> instance
  are not enumerable, so an \<open>Error\<close> created by \<open>new Error(message)\<close> has the text \<open>{}\<close>
  whatever its message.  Any other thrown value, also an error object that carries
  enumerable properties of its own, is given by its JSON text.  Values without a JSON
  text (\<open>undefined\<close>, functions, symbols) are not represented.
\<close>

datatype thrown = Error_instance string | Json_value string

fun JSON_stringify :: "thrown \<Rightarrow> string" where
  "JSON_stringify (Error_instance message) = ''{}''"
| "JSON_stringify (Json_value text) = text"

text \<open>\<open>s.includes(p)\<close>: \<open>p\<close> occurs in \<open>s\<close> as a contiguous piece.\<close>

fun str_includes :: "string \<Rightarrow> string \<Rightarrow> bool" where
  "str_includes [] p = (p = [])"
| "str_includes (c # cs) p = (take (length p) (c # cs) = p \<or> str_includes cs p)"

text \<open>
  The read \<open>fn\<close> may answer differently each time it is invoked, so it is a function from
  the invocation index to the outcome of that invocation.  The result records the final
  outcome (the value returned or the value rethrown), the delays slept, in order, and
  the number of invocations made.
\<close>

datatype 'a attempt = Resolved 'a | Thrown thrown

fun retryRPC :: "(nat \<Rightarrow> 'a attempt) \<Rightarrow> nat \<Rightarrow> nat \<Rightarrow> nat \<Rightarrow> 'a attempt \<times> nat list \<times> nat" where
  "retryRPC fn k retries delay =
     (case fn k of
        Resolved v \<Rightarrow> (Resolved v, [], 1)
      | Thrown error \<Rightarrow>
          if retries > 0 \<and> str_includes (JSON_stringify error) ''429''
          then (case retryRPC fn (Suc k) (retries - 1) (delay * 2) of
                  (r, slept, calls) \<Rightarrow> (r, delay # slept, Suc calls))
          else (Thrown error, [], 1))"

text \<open>The call sites pass only \<open>fn\<close>: \<open>retries = 3\<close>, \<open>delay = 1000\<close>.\<close>

definition retryRPC_default :: "(nat \<Rightarrow> 'a attempt) \<Rightarrow> 'a attempt \<times> nat list \<times> nat" where
  "retryRPC_default fn = retryRPC fn 0 3 1000"

text \<open>An invocation that failed with what the wrapper takes for a rate-limit error.\<close>

fun rate_limited :: "'a attempt \<Rightarrow> bool" where
  "rate_limited (Resolved v) = False"
| "rate_limited (Thrown error) = str_includes (JSON_stringify error) ''429''"

section \<open>Collectible-token tier selection\<close>

text \<open>
  \<^verbatim>\<open>
  let targetUri = METADATA_URIS.default;
  if (currentBal >= 5) targetUri = METADATA_URIS.legendary;
  else if (currentBal > 0) targetUri = METADATA_URIS.growing;
  \<close>
  and
  \<^verbatim>\<open>
  const gifData = useMemo(() => {
    if (solVaultBalance >= 5) return { src: "/images/gif-reward.gif", alt: "Reward Max", label: "Legendary" };
    if (solVaultBalance > 0) return { src: "/images/gif-deposited.gif", alt: "Growing", label: "Growing" };
    return { src: "/images/gif-default.gif", alt: "Waiting", label: "Sprout" }; }, [solVaultBalance]);
  \<close>
\<close>

datatype metadata_uri = default_uri | growing | legendary

definition targetUri :: "number \<Rightarrow> metadata_uri" where
  "targetUri currentBal =
     (if currentBal \<ge> 5 then legendary
      else if currentBal > 0 then growing
      else default_uri)"

record gif =
  src :: string
  alt :: string
  label :: string

definition gifData :: "number \<Rightarrow> gif" where
  "gifData solVaultBalance =
     (if solVaultBalance \<ge> 5
        then \<lparr>src = ''/images/gif-reward.gif'', alt = ''Reward Max'', label = ''Legendary''\<rparr>
      else if solVaultBalance > 0
        then \<lparr>src = ''/images/gif-deposited.gif'', alt = ''Growing'', label = ''Growing''\<rparr>
      else \<lparr>src = ''/images/gif-default.gif'', alt = ''Waiting'', label = ''Sprout''\<rparr>)"

section \<open>The two stores\<close>

text \<open>
  The registry table \<open>box_locks\<close> (one row per lock), the ledger's vault balances, the
  reward treasury (the admin wallet) and the treasury transfers submitted so far.  An
  owner is identified by one name, which stands both for the registry's \<open>user_id\<close> and
  for the wallet from which the vault address is derived (the sources keep one wallet per
  user).  Timestamps are milliseconds since the epoch.  Transaction fees and the balances
  of the owners' own wallets are not represented.
\<close>

type_synonym owner = string

record box_lock =
  lock_id :: nat
  user_id :: owner
  amount :: number
  duration_hours :: number
  reward_amount :: number
  ends_at :: int
  status :: string

record world =
  box_locks :: "box_lock list"
  next_lock_id :: nat
  vault :: "owner \<Rightarrow> nat option"
  admin_balance :: nat
  transfers :: "(string \<times> nat) list"

text \<open>
  What a request meets outside the two stores: the clock, and whether each external call
  the handler makes goes through.
\<close>

record env =
  now :: int
  insert_fails :: bool
  admin_secret_ok :: bool
  is_public_key :: "string \<Rightarrow> bool"
  getBalance_fails :: bool
  transfer_fails :: bool

section \<open>The settlement request handler \<open>POST /api/lock\<close>\<close>

text \<open>
  The body \<open>{action, userId, amount, durationHours, lockId, userAddress, force}\<close>, with
  \<open>amount\<close> and \<open>durationHours\<close> numbers and \<open>force\<close> read for its truth value.
\<close>

datatype request =
    Create owner number number
  | Unlock owner nat string bool
  | Other string

text \<open>
  The errors the handler answers with (status 500, or 400 for an unknown action).  The
  first four carry the handler's own messages: lock information not found; already
  released; still within the lock period; treasury wallet balance insufficient.  The
  others are thrown by the calls the handler makes.
\<close>

datatype route_error =
    NotFound
  | AlreadySettled
  | StillLocked
  | TreasuryInsufficient
  | InsertError
  | InvalidTimeValue
  | BadSecretKey
  | InvalidPublicKey
  | RpcError
  | TransactionError
  | InvalidAction

datatype payload = Success | SuccessReward number

type_synonym response = "route_error + payload"

definition apy :: number where
  "apy = 10 / 100"

text \<open>
  \<open>new Date(t)\<close> keeps a time value only within 8.64e15 ms of the epoch and drops its
  fraction; \<open>toISOString\<close> throws a RangeError on a date without a time value.
\<close>

definition time_clip :: "number \<Rightarrow> int option" where
  "time_clip t =
     (if \<bar>t\<bar> > 8640000000000000 then None
      else Some (if t \<ge> 0 then \<lfloor>t\<rfloor> else \<lceil>t\<rceil>))"

text \<open>
  \<^verbatim>\<open>
  if (action === 'create') {
    const now = new Date();
    const endsAt = new Date(now.getTime() + durationHours * 60 * 60 * 1000);
    const apy = 0.10;
    const reward = amount * apy * (durationHours / 8760);
    const { error } = await supabase.from('box_locks').insert([{
      user_id: userId, amount: amount, duration_hours: durationHours,
      reward_amount: reward, ends_at: endsAt.toISOString(), status: 'active' }]);
    if (error) throw error;
    return NextResponse.json({ success: true });
  }
  \<close>
  The registry numbers the rows it stores.
\<close>

definition POST_create :: "env \<Rightarrow> owner \<Rightarrow> number \<Rightarrow> number \<Rightarrow> world \<Rightarrow> response \<times> world" where
  "POST_create e userId amt durationHours w =
     (let endsAt = time_clip (of_int (now e) + durationHours * 60 * 60 * 1000);
          reward = amt * apy * (durationHours / 8760)
      in case endsAt of
           None \<Rightarrow> (Inl InvalidTimeValue, w)
         | Some t \<Rightarrow>
             if insert_fails e then (Inl InsertError, w)
             else (Inr Success,
                   w\<lparr>box_locks := box_locks w @
                        [\<lparr>lock_id = next_lock_id w, user_id = userId, amount = amt,
                          duration_hours = durationHours, reward_amount = reward,
                          ends_at = t, status = ''active''\<rparr>],
                      next_lock_id := Suc (next_lock_id w)\<rparr>))"

text \<open>\<open>.select('*').eq('id', lockId).eq('user_id', userId).single()\<close>: exactly one row, or an error.\<close>

definition select_single :: "nat \<Rightarrow> owner \<Rightarrow> box_lock list \<Rightarrow> box_lock option" where
  "select_single lockId userId rows =
     (case filter (\<lambda>r. lock_id r = lockId \<and> user_id r = userId) rows of
        [r] \<Rightarrow> Some r
      | _ \<Rightarrow> None)"

text \<open>\<open>.update({ status: 'claimed' }).eq('id', lockId)\<close>; the handler does not look at its result.\<close>

definition update_claimed :: "nat \<Rightarrow> box_lock list \<Rightarrow> box_lock list" where
  "update_claimed lockId rows =
     map (\<lambda>r. if lock_id r = lockId then r\<lparr>status := ''claimed''\<rparr> else r) rows"

text \<open>
  The block guarded by \<open>finalRewardAmount > 0\<close>:
  \<^verbatim>\<open>
  const adminWallet = Keypair.fromSecretKey(new Uint8Array(ADMIN_SECRET));
  const recipient = new PublicKey(userAddress);
  const rewardLamports = Math.floor(finalRewardAmount * LAMPORTS_PER_SOL);
  const adminBalance = await connection.getBalance(adminWallet.publicKey);
  if (adminBalance < rewardLamports) { throw new Error(...); }
  const transaction = new Transaction().add(SystemProgram.transfer({
    fromPubkey: adminWallet.publicKey, toPubkey: recipient, lamports: rewardLamports }));
  await sendAndConfirmTransaction(connection, transaction, [adminWallet]);
  \<close>
  A submitted transfer is recorded in \<open>transfers\<close> whether or not it is confirmed.
\<close>

definition submit_transfer :: "env \<Rightarrow> string \<Rightarrow> nat \<Rightarrow> world \<Rightarrow> route_error option \<times> world" where
  "submit_transfer e userAddress lamports w =
     (let w1 = w\<lparr>transfers := transfers w @ [(userAddress, lamports)]\<rparr> in
      if transfer_fails e then (Some TransactionError, w1)
      else (None, w1\<lparr>admin_balance := admin_balance w - lamports\<rparr>))"

definition send_reward :: "env \<Rightarrow> string \<Rightarrow> number \<Rightarrow> world \<Rightarrow> route_error option \<times> world" where
  "send_reward e userAddress finalRewardAmount w =
     (if \<not> admin_secret_ok e then (Some BadSecretKey, w)
      else if \<not> is_public_key e userAddress then (Some InvalidPublicKey, w)
      else let rewardLamports = floor_lamports finalRewardAmount in
        if getBalance_fails e then (Some RpcError, w)
        else if int (admin_balance w) < rewardLamports then (Some TreasuryInsufficient, w)
        else submit_transfer e userAddress (nat rewardLamports) w)"

text \<open>
  \<^verbatim>\<open>
  if (action === 'unlock') {
    const { data: lockData, error } = await supabase.from('box_locks').select('*')
      .eq('id', lockId).eq('user_id', userId).single();
    if (error || !lockData) throw new Error(...);
    if (lockData.status !== 'active') throw new Error(...);
    const isTimeOver = new Date() >= new Date(lockData.ends_at);
    if (!isTimeOver && !force) { throw new Error(...); }
    let finalRewardAmount = lockData.reward_amount;
    if (!isTimeOver && force) { finalRewardAmount = 0; }
    if (finalRewardAmount > 0) { ... }
    await supabase.from('box_locks').update({ status: 'claimed' }).eq('id', lockId);
    return NextResponse.json({ success: true, reward: finalRewardAmount });
  }
  \<close>
\<close>

definition POST_unlock :: "env \<Rightarrow> owner \<Rightarrow> nat \<Rightarrow> string \<Rightarrow> bool \<Rightarrow> world \<Rightarrow> response \<times> world" where
  "POST_unlock e userId lockId userAddress force w =
     (case select_single lockId userId (box_locks w) of
        None \<Rightarrow> (Inl NotFound, w)
      | Some lockData \<Rightarrow>
          if status lockData \<noteq> ''active'' then (Inl AlreadySettled, w)
          else let isTimeOver = (now e \<ge> ends_at lockData) in
            if \<not> isTimeOver \<and> \<not> force then (Inl StillLocked, w)
            else let finalRewardAmount =
                       (if \<not> isTimeOver \<and> force then 0 else reward_amount lockData);
                     (thrown, w1) =
                       (if finalRewardAmount > 0
                        then send_reward e userAddress finalRewardAmount w
                        else (None, w))
                 in case thrown of
                      Some err \<Rightarrow> (Inl err, w1)
                    | None \<Rightarrow>
                        (Inr (SuccessReward finalRewardAmount),
                         w1\<lparr>box_locks := update_claimed lockId (box_locks w1)\<rparr>))"

definition POST :: "env \<Rightarrow> request \<Rightarrow> world \<Rightarrow> response \<times> world" where
  "POST e req w =
     (case req of
        Create userId amt durationHours \<Rightarrow> POST_create e userId amt durationHours w
      | Unlock userId lockId userAddress force \<Rightarrow> POST_unlock e userId lockId userAddress force w
      | Other a \<Rightarrow> (Inl InvalidAction, w))"

section \<open>The earlier request handler\<close>

text \<open>
  The repository keeps an earlier copy of the handler (\<open>app/api/lock/route.ts\<close>), the one
  the earlier component, which shows an APY of 5%, was written against.  It differs from
  the handler above in three places: the rate is 0.05; there is no force flag, so a call
  before maturity always fails; and the treasury is read and checked for every matured
  lock, while the transfer is submitted only if it carries at least one lamport.
  \<^verbatim>\<open>
  const apy = 0.05;
  const reward = amount * apy * (durationHours / 8760);
  ...
  if (new Date() < new Date(lockData.ends_at)) { throw new Error(...); }
  const adminWallet = Keypair.fromSecretKey(new Uint8Array(ADMIN_SECRET));
  const recipient = new PublicKey(userAddress);
  const rewardLamports = Math.floor(lockData.reward_amount * LAMPORTS_PER_SOL);
  const adminBalance = await connection.getBalance(adminWallet.publicKey);
  if (adminBalance < rewardLamports) { throw new Error(...); }
  if (rewardLamports > 0) { ... await sendAndConfirmTransaction(...); }
  await supabase.from('box_locks').update({ status: 'claimed' }).eq('id', lockId);
  ...
  return NextResponse.json({ success: true, reward: lockData.reward_amount });
  \<close>
  The history row it adds after the update is not represented.
\<close>

definition legacy_apy :: number where
  "legacy_apy = 5 / 100"

definition legacy_POST_create :: "env \<Rightarrow> owner \<Rightarrow> number \<Rightarrow> number \<Rightarrow> world \<Rightarrow> response \<times> world" where
  "legacy_POST_create e userId amt durationHours w =
     (let endsAt = time_clip (of_int (now e) + durationHours * 60 * 60 * 1000);
          reward = amt * legacy_apy * (durationHours / 8760)
      in case endsAt of
           None \<Rightarrow> (Inl InvalidTimeValue, w)
         | Some t \<Rightarrow>
             if insert_fails e then (Inl InsertError, w)
             else (Inr Success,
                   w\<lparr>box_locks := box_locks w @
                        [\<lparr>lock_id = next_lock_id w, user_id = userId, amount = amt,
                          duration_hours = durationHours, reward_amount = reward,
                          ends_at = t, status = ''active''\<rparr>],
                      next_lock_id := Suc (next_lock_id w)\<rparr>))"

definition legacy_POST_unlock :: "env \<Rightarrow> owner \<Rightarrow> nat \<Rightarrow> string \<Rightarrow> world \<Rightarrow> response \<times> world" where
  "legacy_POST_unlock e userId lockId userAddress w =
     (case select_single lockId userId (box_locks w) of
        None \<Rightarrow> (Inl NotFound, w)
      | Some lockData \<Rightarrow>
          if status lockData \<noteq> ''active'' then (Inl AlreadySettled, w)
          else if now e < ends_at lockData then (Inl StillLocked, w)
          else if \<not> admin_secret_ok e then (Inl BadSecretKey, w)
          else if \<not> is_public_key e userAddress then (Inl InvalidPublicKey, w)
          else let rewardLamports = floor_lamports (reward_amount lockData) in
            if getBalance_fails e then (Inl RpcError, w)
            else if int (admin_balance w) < rewardLamports then (Inl TreasuryInsufficient, w)
            else let (thrown, w1) =
                       (if rewardLamports > 0
                        then submit_transfer e userAddress (nat rewardLamports) w
                        else (None, w))
                 in case thrown of
                      Some err \<Rightarrow> (Inl err, w1)
                    | None \<Rightarrow>
                        (Inr (SuccessReward (reward_amount lockData)),
                         w1\<lparr>box_locks := update_claimed lockId (box_locks w1)\<rparr>))"

section \<open>The vault ledger program\<close>





section \<open>The component \<open>DepositSection\<close>\<close>

text \<open>
  The component state the handlers close over: the session and the wallet (absent until
  the user has logged in and has a wallet), the vault balance in lamports as last
  fetched, and the active locks as last fetched.
\<close>

record view =
  session :: "owner option"
  myWallet :: "owner option"
  balance :: nat
  activeLocks :: "box_lock list"

text \<open>
  \<open>fetchLocks\<close>: \<open>.eq('user_id', userId).eq('status', 'active').order('ends_at', { ascending: true })\<close>.
  \<open>fetchVault\<close>: the vault's balance, or \<open>"0"\<close> when the vault cannot be fetched.
\<close>

definition fetchLocks :: "world \<Rightarrow> owner \<Rightarrow> box_lock list" where
  "fetchLocks w userId =
     sort_key ends_at (filter (\<lambda>r. user_id r = userId \<and> status r = ''active'') (box_locks w))"

definition fetchVault :: "world \<Rightarrow> owner \<Rightarrow> nat" where
  "fetchVault w u = (case vault w u of Some b \<Rightarrow> b | None \<Rightarrow> 0)"

text \<open>
  \<^verbatim>\<open>
  const solVaultBalance = useMemo(() => Number(balance) / LAMPORTS_PER_SOL, [balance]);
  const totalLockedAmount = useMemo(() => activeLocks.reduce((sum, lock) => sum + lock.amount, 0), [activeLocks]);
  const availableToWithdraw = solVaultBalance - totalLockedAmount;
  \<close>
\<close>

definition solVaultBalance :: "view \<Rightarrow> number" where
  "solVaultBalance v = of_nat (balance v) / of_nat LAMPORTS_PER_SOL"

definition totalLockedAmount :: "view \<Rightarrow> number" where
  "totalLockedAmount v = foldl (\<lambda>sum lock. sum + amount lock) 0 (activeLocks v)"

definition availableToWithdraw :: "view \<Rightarrow> number" where
  "availableToWithdraw v = solVaultBalance v - totalLockedAmount v"

text \<open>
  How a handler ends: it returned at once without a message (no session or wallet, or
  the confirmation dialog was declined), it refused the input with an alert, the guarded
  block threw and the error alert was shown, or it ran to the end.
\<close>

datatype refusal = BadAmount | OverAvailable

datatype outcome = NoOp | Refused refusal | Failed | Done




text \<open>
  \<^verbatim>\<open>
  const handleLock = async () => {
    if (!session) return;
    const val = parseFloat(lockAmountInput);
    if (isNaN(val) || val <= 0) { alert(...); return; }
    if (val > availableToWithdraw) { alert(...); return; }
    if(!confirm(...)) return;
    try {
      const res = await fetch('/api/lock', { method: 'POST', body: JSON.stringify({
        action: 'create', userId: session.user.id, amount: val, durationHours: lockDuration }) });
      if (!res.ok) throw new Error(...);
      ... } catch (e) { alert(e.message); } ...
  \<close>
  \<open>confirmed\<close> is the user's answer to the confirmation dialog.
\<close>

definition handleLock :: "view \<Rightarrow> number option \<Rightarrow> number \<Rightarrow> bool \<Rightarrow> env \<Rightarrow> world \<Rightarrow> outcome \<times> world" where
  "handleLock v lockAmountInput lockDuration confirmed e w =
     (case session v of
        None \<Rightarrow> (NoOp, w)
      | Some u \<Rightarrow>
          (case lockAmountInput of
             None \<Rightarrow> (Refused BadAmount, w)
           | Some val \<Rightarrow>
               if val \<le> 0 then (Refused BadAmount, w)
               else if val > availableToWithdraw v then (Refused OverAvailable, w)
               else if \<not> confirmed then (NoOp, w)
               else (case POST e (Create u val lockDuration) w of
                       (Inl err, w') \<Rightarrow> (Failed, w')
                     | (Inr ok, w') \<Rightarrow> (Done, w'))))"


section \<open>Runs of the system\<close>

text \<open>
  The component refetches the vault and the active locks after every action and on every
  change notification of the registry, so an owner's handlers run on the view fetched
  from the current stores.  A run starts with an empty registry, no vaults and some
  treasury balance, and proceeds by handler invocations of arbitrary owners, each with
  arbitrary input and whatever outcome.
\<close>

definition view_of :: "world \<Rightarrow> owner \<Rightarrow> view" where
  "view_of w u =
     \<lparr>session = Some u, myWallet = Some u, balance = fetchVault w u, activeLocks = fetchLocks w u\<rparr>"





section \<open>Sample runs\<close>

text \<open>
  An environment at time \<open>t\<close> in which every external call goes through; stores in which
  owner alice has a vault holding 2 SOL and no lock; and the stores after she has then
  locked \<open>amt\<close> SOL for \<open>hours\<close> hours at time 0.
\<close>

definition fine :: "int \<Rightarrow> env" where
  "fine t = \<lparr>now = t, insert_fails = False, admin_secret_ok = True,
             is_public_key = (\<lambda>a. True), getBalance_fails = False, transfer_fails = False\<rparr>"

definition funded :: "nat \<Rightarrow> world" where
  "funded treasury =
     \<lparr>box_locks = [], next_lock_id = 0, vault = (\<lambda>u. None)(''alice'' \<mapsto> 2000000000),
      admin_balance = treasury, transfers = []\<rparr>"

definition locked_world :: "number \<Rightarrow> number \<Rightarrow> nat \<Rightarrow> world" where
  "locked_world amt hours treasury =
     snd (handleLock (view_of (funded treasury) ''alice'') (Some amt) hours True (fine 0)
            (funded treasury))"

section \<open>Properties of the resilience wrapper\<close>

lemma retryRPC_stop:
  "\<not> rate_limited (fn k) \<or> retries = 0 \<Longrightarrow> retryRPC fn k retries delay = (fn k, [], 1)"
  by (cases "fn k") auto

lemma retryRPC_again:
  "rate_limited (fn k) \<Longrightarrow> retryRPC fn k (Suc retries) delay =
     (case retryRPC fn (Suc k) retries (delay * 2) of
        (r, slept, calls) \<Rightarrow> (r, delay # slept, Suc calls))"
  by (cases "fn k") auto

text \<open>
  What the wrapper does with its default arguments: if the first \<open>k \<le> 3\<close> invocations
  fail with a value whose JSON text contains 429 and invocation \<open>k\<close> either is the fourth
  one or does not fail so, then the wrapper made exactly \<open>k + 1\<close> invocations, slept the
  first \<open>k\<close> of the delays 1000, 2000, 4000 ms, and its outcome is that of invocation \<open>k\<close>
  unchanged.
\<close>

lemma retryRPC_schedule:
  assumes "k \<le> 3"
    and "\<forall>i<k. rate_limited (fn i)"
    and "k < 3 \<longrightarrow> \<not> rate_limited (fn k)"
  shows "retryRPC_default fn = (fn k, take k [1000, 2000, 4000], Suc k)"
proof -
  from assms(1) consider "k = 0" | "k = 1" | "k = 2" | "k = 3" by linarith
  then show ?thesis
  proof cases
    case 1
    with assms(3) show ?thesis
      by (simp add: retryRPC_default_def retryRPC_stop del: retryRPC.simps)
  next
    case 2
    with assms(2,3) have "rate_limited (fn 0)" "\<not> rate_limited (fn (Suc 0))" by auto
    with 2 show ?thesis
      unfolding retryRPC_default_def numeral_3_eq_3
      by (simp add: retryRPC_again retryRPC_stop del: retryRPC.simps)
  next
    case 3
    with assms(2,3) have "rate_limited (fn 0)" "rate_limited (fn (Suc 0))"
      "\<not> rate_limited (fn (Suc (Suc 0)))" by (auto simp: numeral_2_eq_2)
    with 3 show ?thesis
      unfolding retryRPC_default_def numeral_3_eq_3
      by (simp add: retryRPC_again retryRPC_stop numeral_2_eq_2 del: retryRPC.simps)
  next
    case 4
    with assms(2) have "rate_limited (fn 0)" "rate_limited (fn (Suc 0))"
      "rate_limited (fn (Suc (Suc 0)))" by (auto simp: numeral_3_eq_3)
    with 4 show ?thesis
      unfolding retryRPC_default_def numeral_3_eq_3
      by (simp add: retryRPC_again retryRPC_stop numeral_3_eq_3 del: retryRPC.simps)
  qed
qed

lemma retryRPC_schedule_example:
  "retryRPC_default (\<lambda>i. if i < 2 then Thrown (Json_value ''{code:429}'') else Resolved (7::nat))
     = (Resolved 7, [1000, 2000], 3)"
  using retryRPC_schedule [of 2 "\<lambda>i. if i < 2 then Thrown (Json_value ''{code:429}'')
                                    else Resolved (7::nat)"]
  by (simp add: numeral_2_eq_2)

lemma retryRPC_exhausted_example:
  "retryRPC_default (\<lambda>i. Thrown (Json_value ''{code:429}'') :: nat attempt)
     = (Thrown (Json_value ''{code:429}''), [1000, 2000, 4000], 4)"
  using retryRPC_schedule [of 3 "\<lambda>i. Thrown (Json_value ''{code:429}'') :: nat attempt"]
  by simp

text \<open>
  C9.  A read that keeps failing with the rate-limit error the ledger client raises, an
  \<open>Error\<close> instance whose message reports the 429, is invoked once: the wrapper sleeps
  for no delay, retries nothing and rethrows the error at once.
\<close>

theorem retryRPC_Error_instance_not_retried:
  "retryRPC_default (\<lambda>i. Thrown (Error_instance ''429 Too Many Requests'') :: nat attempt)
     = (Thrown (Error_instance ''429 Too Many Requests''), [], 1)"
  by (simp add: retryRPC_default_def)

section \<open>Properties of the tier selection\<close>

text \<open>
  C8.  The tier is a function of the vault balance alone: balance 0 selects the first
  tier (label Sprout, the default metadata), a balance strictly between 0 and 5 selects
  the second tier (Growing), and a balance of at least 5 selects the third tier
  (Legendary), both for the displayed image and for the token metadata.
\<close>

theorem tier_selection:
  "(b = 0 \<longrightarrow> label (gifData b) = ''Sprout'' \<and> targetUri b = default_uri) \<and>
   (0 < b \<and> b < 5 \<longrightarrow> label (gifData b) = ''Growing'' \<and> targetUri b = growing) \<and>
   (5 \<le> b \<longrightarrow> label (gifData b) = ''Legendary'' \<and> targetUri b = legendary)"
  by (simp add: gifData_def targetUri_def)

theorem tier_selection_witness:
  "label (gifData 0) = ''Sprout'' \<and> targetUri 0 = default_uri \<and>
   label (gifData (5/2)) = ''Growing'' \<and> targetUri (5/2) = growing \<and>
   label (gifData 5) = ''Legendary'' \<and> targetUri 5 = legendary"
  using tier_selection [of 0] tier_selection [of "5/2"] tier_selection [of 5]
  by simp

section \<open>Sample runs, evaluated\<close>

lemma funded_eval:
  "funded t = \<lparr>box_locks = [], next_lock_id = 0, vault = (\<lambda>u. None)(''alice'' \<mapsto> 2000000000),
               admin_balance = t, transfers = []\<rparr>"
  by (simp add: funded_def)

lemma view_funded:
  "view_of (funded t) ''alice'' = \<lparr>session = Some ''alice'', myWallet = Some ''alice'',
      balance = 2000000000, activeLocks = []\<rparr>"
  by (simp add: funded_eval view_of_def fetchVault_def fetchLocks_def)

lemma locked_world_day:
  "locked_world 1 24 t = \<lparr>box_locks = [\<lparr>lock_id = 0, user_id = ''alice'', amount = 1,
        duration_hours = 24, reward_amount = 1 / 3650, ends_at = 86400000, status = ''active''\<rparr>],
      next_lock_id = 1, vault = (\<lambda>u. None)(''alice'' \<mapsto> 2000000000),
      admin_balance = t, transfers = []\<rparr>"
  unfolding locked_world_def view_funded
  by (simp add: handleLock_def availableToWithdraw_def
      solVaultBalance_def totalLockedAmount_def LAMPORTS_PER_SOL_def POST_def POST_create_def
      time_clip_def fine_def apy_def funded_eval)

lemma locked_world_5min:
  "locked_world (1/1000) (1/12) t = \<lparr>box_locks = [\<lparr>lock_id = 0, user_id = ''alice'', amount = 1/1000,
        duration_hours = 1/12, reward_amount = 1 / 1051200000, ends_at = 300000, status = ''active''\<rparr>],
      next_lock_id = 1, vault = (\<lambda>u. None)(''alice'' \<mapsto> 2000000000),
      admin_balance = t, transfers = []\<rparr>"
  unfolding locked_world_def view_funded
  by (simp add: handleLock_def availableToWithdraw_def
      solVaultBalance_def totalLockedAmount_def LAMPORTS_PER_SOL_def POST_def POST_create_def
      time_clip_def fine_def apy_def funded_eval)

lemma floor_lamports_day: "floor_lamports (1 / 3650) = 273972"
proof -
  have "\<lfloor>(20000000::rat) / 73\<rfloor> = 273972" by (rule floor_unique) simp_all
  then show ?thesis by (simp add: floor_lamports_def LAMPORTS_PER_SOL_def)
qed

lemma select_day: "select_single 0 ''alice'' (box_locks (locked_world 1 24 t)) =
   Some \<lparr>lock_id = 0, user_id = ''alice'', amount = 1,
        duration_hours = 24, reward_amount = 1 / 3650, ends_at = 86400000, status = ''active''\<rparr>"
  by (simp add: locked_world_day select_single_def)

lemma select_5min: "select_single 0 ''alice'' (box_locks (locked_world (1/1000) (1/12) t)) =
   Some \<lparr>lock_id = 0, user_id = ''alice'', amount = 1/1000,
        duration_hours = 1/12, reward_amount = 1 / 1051200000, ends_at = 300000, status = ''active''\<rparr>"
  by (simp add: locked_world_5min select_single_def)

section \<open>Properties of the settlement request handler\<close>



lemma send_reward_box_locks:
  "box_locks (snd (send_reward e a x w)) = box_locks w"
  by (simp add: send_reward_def submit_transfer_def Let_def)

lemma send_reward_keeps_rows:
  "send_reward e a x w = (thrown, w1) \<Longrightarrow> box_locks w1 = box_locks w"
  using send_reward_box_locks [of e a x w] by simp

lemma POST_unlock_active:
  assumes "select_single i u (box_locks w) = Some l" and "status l = ''active''"
  shows "POST_unlock e u i a f w =
    (if now e < ends_at l \<and> \<not> f then (Inl StillLocked, w)
     else if now e < ends_at l
       then (Inr (SuccessReward 0), w\<lparr>box_locks := update_claimed i (box_locks w)\<rparr>)
     else if reward_amount l > 0
       then (case send_reward e a (reward_amount l) w of
               (Some err, w1) \<Rightarrow> (Inl err, w1)
             | (None, w1) \<Rightarrow> (Inr (SuccessReward (reward_amount l)),
                              w1\<lparr>box_locks := update_claimed i (box_locks w1)\<rparr>))
     else (Inr (SuccessReward (reward_amount l)),
           w\<lparr>box_locks := update_claimed i (box_locks w)\<rparr>))"
  using assms by (auto simp: POST_unlock_def Let_def split: prod.splits option.splits)

lemma POST_unlock_Inr:
  assumes "POST_unlock e u i a f w = (Inr p, w')"
  shows "\<exists>l. select_single i u (box_locks w) = Some l \<and> status l = ''active'' \<and>
             box_locks w' = update_claimed i (box_locks w)"
proof -
  from assms obtain l where l: "select_single i u (box_locks w) = Some l" "status l = ''active''"
    by (auto simp: POST_unlock_def split: option.splits if_splits)
  have "box_locks w' = update_claimed i (box_locks w)"
    using assms send_reward_box_locks [of e a "reward_amount l" w]
    unfolding POST_unlock_active [OF l]
    by (auto split: if_splits prod.splits option.splits)
  with l show ?thesis by blast
qed

text \<open>
  C7.  A settle call on an active lock of the caller, made strictly before the lock's
  maturity and without the force flag, fails with StillLocked and leaves both stores as
  they were: the lock stays active and no transfer is submitted.
\<close>

theorem still_locked:
  assumes "select_single lockId userId (box_locks w) = Some l"
    and "status l = ''active''"
    and "now e < ends_at l"
  shows "POST e (Unlock userId lockId userAddress False) w = (Inl StillLocked, w)"
  using assms(3) by (simp add: POST_def POST_unlock_active [OF assms(1,2)])

theorem still_locked_witness:
  "POST (fine 0) (Unlock ''alice'' 0 ''alice'' False) (locked_world 1 24 0)
     = (Inl StillLocked, locked_world 1 24 0)"
proof -
  let ?l = "\<lparr>lock_id = 0, user_id = ''alice'', amount = 1, duration_hours = 24,
             reward_amount = 1 / 3650, ends_at = 86400000, status = ''active''\<rparr>"
  have "status ?l = ''active''" and "now (fine 0) < ends_at ?l"
    by (simp_all add: fine_def)
  from still_locked [OF select_day this] show ?thesis .
qed






text \<open>
  C5, as the handler has it.  For a settle call at or after maturity on an active lock
  of the caller with a positive reward: if the treasury balance in lamports is less than
  \<open>floor(reward_amount * 1000000000)\<close>, the call fails and leaves both stores as they
  were (no transfer is submitted, the lock stays active), and the failure is
  TreasuryInsufficient whenever the treasury key loads, the recipient address parses and
  the balance read goes through.
\<close>

theorem treasury_short:
  assumes sel: "select_single lockId userId (box_locks w) = Some l"
    and act: "status l = ''active''"
    and "ends_at l \<le> now e"
    and "0 < reward_amount l"
    and "int (admin_balance w) < floor_lamports (reward_amount l)"
  shows "(\<exists>err. POST e (Unlock userId lockId userAddress force) w = (Inl err, w)) \<and>
         (admin_secret_ok e \<and> is_public_key e userAddress \<and> \<not> getBalance_fails e \<longrightarrow>
            POST e (Unlock userId lockId userAddress force) w = (Inl TreasuryInsufficient, w))"
  using assms(3-5)
  by (simp add: POST_def POST_unlock_active [OF sel act] send_reward_def submit_transfer_def Let_def)

theorem treasury_short_witness:
  "POST (fine 86400000) (Unlock ''alice'' 0 ''alice'' False) (locked_world 1 24 273971)
     = (Inl TreasuryInsufficient, locked_world 1 24 273971)"
proof -
  let ?l = "\<lparr>lock_id = 0, user_id = ''alice'', amount = 1, duration_hours = 24,
             reward_amount = 1 / 3650, ends_at = 86400000, status = ''active''\<rparr>"
  have act: "status ?l = ''active''" by simp
  have "ends_at ?l \<le> now (fine 86400000)" "0 < reward_amount ?l"
    "int (admin_balance (locked_world 1 24 273971)) < floor_lamports (reward_amount ?l)"
    by (simp_all add: fine_def floor_lamports_def LAMPORTS_PER_SOL_def locked_world_day)
  from treasury_short [OF select_day act this, where userAddress = "''alice''" and force = False]
  show ?thesis by (simp add: fine_def)
qed

text \<open>
  A lock of 1 SOL for 24 hours has a reward of 1/3650 SOL, which is 273972.6 lamports.
  With a treasury of 273972 lamports, which is less than that reward, the settle call at
  maturity passes the treasury check and submits a transfer of 273972 lamports: if the
  transfer is confirmed the call succeeds, and if it is not the call fails with the
  transfer's error.  Likewise a lock of 0.001 SOL for five minutes has a positive reward
  of less than one lamport, and with an empty treasury the settle call at maturity passes
  the treasury check and submits a transfer of 0 lamports.
\<close>

theorem treasury_short_counterexample:
  "0 < reward_amount (hd (box_locks (locked_world 1 24 273972))) \<and>
   of_nat (admin_balance (locked_world 1 24 273972)) <
     reward_amount (hd (box_locks (locked_world 1 24 273972))) * of_nat LAMPORTS_PER_SOL \<and>
   fst (POST (fine 86400000) (Unlock ''alice'' 0 ''alice'' False) (locked_world 1 24 273972))
     = Inr (SuccessReward (1 / 3650)) \<and>
   transfers (snd (POST (fine 86400000) (Unlock ''alice'' 0 ''alice'' False)
                     (locked_world 1 24 273972))) = [(''alice'', 273972)] \<and>
   POST ((fine 86400000)\<lparr>transfer_fails := True\<rparr>) (Unlock ''alice'' 0 ''alice'' False)
        (locked_world 1 24 273972)
     = (Inl TransactionError, (locked_world 1 24 273972)\<lparr>transfers := [(''alice'', 273972)]\<rparr>) \<and>
   0 < reward_amount (hd (box_locks (locked_world (1/1000) (1/12) 0))) \<and>
   of_nat (admin_balance (locked_world (1/1000) (1/12) 0)) <
     reward_amount (hd (box_locks (locked_world (1/1000) (1/12) 0))) * of_nat LAMPORTS_PER_SOL \<and>
   transfers (snd (POST ((fine 300000)\<lparr>transfer_fails := True\<rparr>)
                     (Unlock ''alice'' 0 ''alice'' False)
                     (locked_world (1/1000) (1/12) 0))) = [(''alice'', 0)]"
proof -
  have day: "fst (POST (fine 86400000) (Unlock ''alice'' 0 ''alice'' False)
                    (locked_world 1 24 273972)) = Inr (SuccessReward (1 / 3650)) \<and>
      transfers (snd (POST (fine 86400000) (Unlock ''alice'' 0 ''alice'' False)
                     (locked_world 1 24 273972))) = [(''alice'', 273972)]"
    by (simp add: POST_def POST_unlock_active [OF select_day] send_reward_def fine_def
        floor_lamports_day)
       (simp add: locked_world_day submit_transfer_def)
  have day_fails: "POST ((fine 86400000)\<lparr>transfer_fails := True\<rparr>)
        (Unlock ''alice'' 0 ''alice'' False) (locked_world 1 24 273972)
     = (Inl TransactionError, (locked_world 1 24 273972)\<lparr>transfers := [(''alice'', 273972)]\<rparr>)"
    by (simp add: POST_def POST_unlock_active [OF select_day] send_reward_def fine_def
        floor_lamports_day)
       (simp add: locked_world_day submit_transfer_def)
  have small: "transfers (snd (POST ((fine 300000)\<lparr>transfer_fails := True\<rparr>)
                     (Unlock ''alice'' 0 ''alice'' False)
                     (locked_world (1/1000) (1/12) 0))) = [(''alice'', 0)]"
    by (simp add: POST_def POST_unlock_active [OF select_5min] send_reward_def fine_def
        floor_lamports_def LAMPORTS_PER_SOL_def)
       (simp add: locked_world_5min submit_transfer_def Let_def)
  have facts: "0 < reward_amount (hd (box_locks (locked_world 1 24 273972)))"
    "of_nat (admin_balance (locked_world 1 24 273972)) <
       reward_amount (hd (box_locks (locked_world 1 24 273972))) * of_nat LAMPORTS_PER_SOL"
    "0 < reward_amount (hd (box_locks (locked_world (1/1000) (1/12) 0)))"
    "of_nat (admin_balance (locked_world (1/1000) (1/12) 0)) <
       reward_amount (hd (box_locks (locked_world (1/1000) (1/12) 0))) * of_nat LAMPORTS_PER_SOL"
    by (simp_all add: locked_world_day locked_world_5min LAMPORTS_PER_SOL_def)
  from day day_fails small facts show ?thesis by blast
qed



text \<open>
  C3.  A lock created with principal \<open>a\<close> and duration \<open>d\<close> hours is stored, as the last
  row, with reward \<open>a * 0.10 * (d / 8760)\<close>; for \<open>a = 1000\<close> and \<open>d = 24\<close> that is within 0.001
  of 0.274.  No request changes the reward stored in any existing row.
\<close>

theorem reward_formula:
  "(POST e (Create userId a d) w = (Inr p, w') \<longrightarrow>
      butlast (box_locks w') = box_locks w \<and>
      amount (last (box_locks w')) = a \<and>
      duration_hours (last (box_locks w')) = d \<and>
      status (last (box_locks w')) = ''active'' \<and>
      reward_amount (last (box_locks w')) = a * (10 / 100) * (d / 8760) \<and>
      (a = 1000 \<and> d = 24 \<longrightarrow> \<bar>reward_amount (last (box_locks w')) - 274 / 1000\<bar> < 1 / 1000)) \<and>
   map reward_amount (take (length (box_locks w)) (box_locks (snd (POST e req w))))
     = map reward_amount (box_locks w)"
proof (intro conjI impI)
  assume run: "POST e (Create userId a d) w = (Inr p, w')"
  then have rows: "box_locks w' = box_locks w @
      [\<lparr>lock_id = next_lock_id w, user_id = userId, amount = a, duration_hours = d,
        reward_amount = a * (10 / 100) * (d / 8760),
        ends_at = (case time_clip (of_int (now e) + d * 60 * 60 * 1000) of Some t \<Rightarrow> t | None \<Rightarrow> 0),
        status = ''active''\<rparr>]"
    by (auto simp: POST_def POST_create_def Let_def apy_def split: option.splits if_splits)
  from rows show "butlast (box_locks w') = box_locks w" by simp
  from rows show "amount (last (box_locks w')) = a" by simp
  from rows show "duration_hours (last (box_locks w')) = d" by simp
  from rows show "status (last (box_locks w')) = ''active''" by simp
  from rows show "reward_amount (last (box_locks w')) = a * (10 / 100) * (d / 8760)" by simp
  assume "a = 1000 \<and> d = 24"
  with rows show "\<bar>reward_amount (last (box_locks w')) - 274 / 1000\<bar> < 1 / 1000" by simp
next
  show "map reward_amount (take (length (box_locks w)) (box_locks (snd (POST e req w))))
     = map reward_amount (box_locks w)"
  proof (cases req)
    case (Create u a d)
    then show ?thesis
      by (simp add: POST_def POST_create_def Let_def split: option.splits)
  next
    case (Unlock u i addr f)
    have keep: "map reward_amount (update_claimed i rows) = map reward_amount rows" for rows
      by (induction rows) (simp_all add: update_claimed_def)
    have len: "length (update_claimed i rows) = length rows" for rows
      by (simp add: update_claimed_def)
    have "box_locks (snd (POST_unlock e u i addr f w)) = box_locks w \<or>
          box_locks (snd (POST_unlock e u i addr f w)) = update_claimed i (box_locks w)"
    proof (cases "POST_unlock e u i addr f w")
      case (Pair r w1)
      show ?thesis
      proof (cases r)
        case (Inl err)
        have "box_locks w1 = box_locks w"
          using Pair Inl
          by (auto simp: POST_unlock_def Let_def dest: send_reward_keeps_rows
              split: option.splits if_splits prod.splits)
        with Pair show ?thesis by simp
      next
        case (Inr ok)
        with Pair POST_unlock_Inr [of e u i addr f w ok w1] show ?thesis by auto
      qed
    qed
    with Unlock show ?thesis
      by (auto simp: POST_def keep len)
  next
    case (Other x)
    then show ?thesis by (simp add: POST_def)
  qed
qed

theorem reward_formula_witness:
  "reward_amount (last (box_locks (snd (POST (fine 0) (Create ''alice'' 1000 24) (funded 0)))))
     = 20 / 73 \<and>
   \<bar>reward_amount (last (box_locks (snd (POST (fine 0) (Create ''alice'' 1000 24) (funded 0)))))
      - 274 / 1000\<bar> < 1 / 1000"
proof -
  obtain w' where run: "POST (fine 0) (Create ''alice'' 1000 24) (funded 0) = (Inr Success, w')"
    by (simp add: POST_def POST_create_def time_clip_def fine_def)
  from reward_formula [of "fine 0" "''alice''" 1000 24 "funded 0" Success w'] run
  show ?thesis by simp
qed

section \<open>Properties of the lock creation path\<close>




text \<open>
  The checks are those of \<open>handleLock\<close>.  The handler itself stores whatever it is sent:
  a create request for 5 SOL by an owner whose vault holds 2 SOL succeeds.
\<close>

lemma POST_create_unchecked:
  "fst (POST (fine 0) (Create ''alice'' 5 1) (funded 0)) = Inr Success \<and>
   map amount (box_locks (snd (POST (fine 0) (Create ''alice'' 5 1) (funded 0)))) = [5] \<and>
   fetchVault (snd (POST (fine 0) (Create ''alice'' 5 1) (funded 0))) ''alice'' = 2000000000"
  by (simp add: POST_def POST_create_def time_clip_def fine_def funded_def fetchVault_def)

section \<open>The vault covers the active locks\<close>


























section \<open>Properties of the earlier request handler\<close>

text \<open>
  The earlier handler stores the reward at rate 0.05.  When it settles a matured lock
  with a positive reward it returns the stored reward; the transfer it submits carries
  \<open>floor(reward_amount * 1000000000)\<close> lamports if that is positive, and for a reward of
  less than one lamport it submits no transfer at all.
\<close>

lemma legacy_create_reward:
  assumes "legacy_POST_create e userId a d w = (Inr p, w')"
  shows "reward_amount (last (box_locks w')) = a * (5 / 100) * (d / 8760)"
  using assms
  by (auto simp: legacy_POST_create_def Let_def legacy_apy_def split: option.splits if_splits)

lemma legacy_unlock_paid:
  assumes sel: "select_single lockId userId (box_locks w) = Some l"
    and act: "status l = ''active''"
    and "ends_at l \<le> now e"
    and "0 < reward_amount l"
    and "legacy_POST_unlock e userId lockId userAddress w = (Inr p, w')"
  shows "p = SuccessReward (reward_amount l) \<and>
         (0 < floor_lamports (reward_amount l) \<longrightarrow>
            transfers w' = transfers w @ [(userAddress, nat (floor_lamports (reward_amount l)))] \<and>
            admin_balance w' = admin_balance w - nat (floor_lamports (reward_amount l))) \<and>
         (reward_amount l < 1 / 1000000000 \<longrightarrow>
            transfers w' = transfers w \<and> admin_balance w' = admin_balance w)"
proof -
  have fl: "reward_amount l < 1 / 1000000000 \<Longrightarrow> floor_lamports (reward_amount l) = 0"
  proof -
    assume "reward_amount l < 1 / 1000000000"
    with \<open>0 < reward_amount l\<close>
    have "0 \<le> reward_amount l * 1000000000" "reward_amount l * 1000000000 < 1" by simp_all
    then have "\<lfloor>reward_amount l * 1000000000\<rfloor> = 0" by linarith
    then show ?thesis by (simp add: floor_lamports_def LAMPORTS_PER_SOL_def)
  qed
  from assms(3,5) have 1: "p = SuccessReward (reward_amount l)"
    by (auto simp: legacy_POST_unlock_def sel act Let_def split: if_splits prod.splits option.splits)
  from assms(3,5) have 2: "0 < floor_lamports (reward_amount l) \<Longrightarrow>
            transfers w' = transfers w @ [(userAddress, nat (floor_lamports (reward_amount l)))] \<and>
            admin_balance w' = admin_balance w - nat (floor_lamports (reward_amount l))"
    by (auto simp: legacy_POST_unlock_def sel act Let_def submit_transfer_def split: if_splits)
  from assms(3,5) have 3: "floor_lamports (reward_amount l) = 0 \<Longrightarrow>
            transfers w' = transfers w \<and> admin_balance w' = admin_balance w"
    by (auto simp: legacy_POST_unlock_def sel act Let_def split: if_splits)
  from 1 2 3 fl show ?thesis by blast
qed

end
